theory Spec2Isabelle
  imports Complex_Main "HOL-Library.Char_ord" "HOL-Library.List_Lexorder"
begin

section \<open>JavaScript values\<close>

text \<open>
  The handlers of \<^verbatim>\<open>server.js\<close> read the fields of a parsed JSON body. A field
  that is absent reads as \<^verbatim>\<open>undefined\<close>; the other values are the JSON values.
  A number carries its numeric value; strings are lists of characters.
\<close>

datatype jsval =
    JUndefined
  | JNull
  | JBool bool
  | JNum rat
  | JStr string
  | JArr "jsval list"
  | JObj "(string \<times> jsval) list"

text \<open>\<^verbatim>\<open>!!v\<close>: the falsy values are undefined, null, false, 0 and the empty string.\<close>

fun truthy :: "jsval \<Rightarrow> bool" where
  "truthy JUndefined = False"
| "truthy JNull = False"
| "truthy (JBool b) = b"
| "truthy (JNum r) = (r \<noteq> 0)"
| "truthy (JStr s) = (s \<noteq> [])"
| "truthy (JArr xs) = True"
| "truthy (JObj kvs) = True"

fun nullish :: "jsval \<Rightarrow> bool" where
  "nullish JUndefined = True"
| "nullish JNull = True"
| "nullish v = False"

text \<open>\<^verbatim>\<open>a || b\<close> and \<^verbatim>\<open>a ?? b\<close>.\<close>

definition js_or :: "jsval \<Rightarrow> jsval \<Rightarrow> jsval" where
  "js_or a b = (if truthy a then a else b)"

definition js_nc :: "jsval \<Rightarrow> jsval \<Rightarrow> jsval" where
  "js_nc a b = (if nullish a then b else a)"

text \<open>\<^verbatim>\<open>req.body || {}\<close> is an object; \<^verbatim>\<open>body.k\<close> of a key it lacks is undefined.\<close>

type_synonym jsobject = "(string \<times> jsval) list"

definition field :: "jsobject \<Rightarrow> string \<Rightarrow> jsval" where
  "field b k = (case map_of b k of None \<Rightarrow> JUndefined | Some v \<Rightarrow> v)"

fun join_comma :: "string list \<Rightarrow> string" where
  "join_comma [] = []"
| "join_comma [s] = s"
| "join_comma (s # t # ss) = s @ '','' @ join_comma (t # ss)"

text \<open>
  \<^verbatim>\<open>String(v)\<close>. The text of a number is the runtime's (\<^verbatim>\<open>Number::toString\<close>); it
  is the parameter \<open>nt\<close>. An array joins the texts of its elements with commas, null
  and undefined elements giving the empty text.
\<close>

fun js_String :: "(rat \<Rightarrow> string) \<Rightarrow> jsval \<Rightarrow> string" where
  "js_String nt JUndefined = ''undefined''"
| "js_String nt JNull = ''null''"
| "js_String nt (JBool b) = (if b then ''true'' else ''false'')"
| "js_String nt (JNum r) = nt r"
| "js_String nt (JStr s) = s"
| "js_String nt (JArr xs) =
     join_comma (map (\<lambda>x. if nullish x then [] else js_String nt x) xs)"
| "js_String nt (JObj kvs) = ''[object Object]''"

text \<open>
  \<^verbatim>\<open>s.trim()\<close>: the white space and line terminators among the characters of the
  model are TAB, LF, VT, FF, CR, SP and NBSP.
\<close>

definition is_ws :: "char \<Rightarrow> bool" where
  "is_ws c = (of_char c \<in> {9, 10, 11, 12, 13, 32, 160 :: nat})"

definition trim :: "string \<Rightarrow> string" where
  "trim s = rev (dropWhile is_ws (rev (dropWhile is_ws s)))"

text \<open>\<^verbatim>\<open>s.toUpperCase()\<close> and \<^verbatim>\<open>s.toLowerCase()\<close>, on the ASCII letters.\<close>

definition upper_char :: "char \<Rightarrow> char" where
  "upper_char c =
     (let n = of_char c :: nat in if 97 \<le> n \<and> n \<le> 122 then char_of (n - 32) else c)"


definition toUpperCase :: "string \<Rightarrow> string" where
  "toUpperCase s = map upper_char s"


section \<open>Escaping\<close>

text \<open>
  \<^verbatim>\<open>s.replace(/[...]/g, fn)\<close> for a regular expression that is one character class:
  every character of the class is replaced by what the function returns for it.
\<close>

fun replace_class :: "(char \<Rightarrow> bool) \<Rightarrow> (char \<Rightarrow> string) \<Rightarrow> string \<Rightarrow> string" where
  "replace_class p f [] = []"
| "replace_class p f (c # cs) = (if p c then f c else [c]) @ replace_class p f cs"

definition esc_class :: "char \<Rightarrow> bool" where
  \<open>esc_class c = (c \<in> set ''&<>"'' \<or> c = CHR 0x27)\<close>

definition esc_map :: "(char \<times> string) list" where
  \<open>esc_map =
     [(CHR ''&'', ''&amp;''), (CHR ''<'', ''&lt;''), (CHR ''>'', ''&gt;''),
      (CHR ''"'', ''&quot;''), (CHR 0x27, ''&#039;'')]\<close>

text \<open>The replacer \<^verbatim>\<open>(m) => map[m] || m\<close>.\<close>

definition esc_fn :: "char \<Rightarrow> string" where
  "esc_fn m = (case map_of esc_map m of
                 None \<Rightarrow> [m]
               | Some e \<Rightarrow> (if e \<noteq> [] then e else [m]))"

definition esc :: "(rat \<Rightarrow> string) \<Rightarrow> jsval \<Rightarrow> string" where
  "esc nt s = replace_class esc_class esc_fn (js_String nt (js_nc s (JStr [])))"





section \<open>The environment of a request\<close>

text \<open>
  Every \<^verbatim>\<open>pool.query\<close> call of the server is one of these statements. The gateway is
  an external collaborator: any statement can fail (connectivity, a constraint, a value
  the column type refuses), and then \<^verbatim>\<open>pool.query\<close> throws.
\<close>

datatype query =
    Q_CountPlots
  | Q_InsertPlot
  | Q_InsertAudit
  | Q_CemeteryName
  | Q_SelectPlot
  | Q_UpdatePlot
  | Q_SoftDeletePlot
  | Q_InsertDeceased
  | Q_UpdateDeceased
  | Q_ListPlots

text \<open>
  What a request finds around it: the configuration constants of \<^verbatim>\<open>server.js\<close>
  (\<^verbatim>\<open>PLOTS_PER_CEMETERY_LIMIT\<close>, \<^verbatim>\<open>emailEnabled\<close>), the database clock read by
  \<^verbatim>\<open>NOW()\<close>, which statements fail and with which message (\<open>fails\<close>), whether the mail
  transport throws, and the runtime's texts of a number (\<^verbatim>\<open>String(n)\<close>) and of a value
  (\<^verbatim>\<open>JSON.stringify(v, null, 2)\<close>).
\<close>

record env =
  PLOTS_PER_CEMETERY_LIMIT :: nat
  emailEnabled :: bool
  now :: nat
  fails :: "query \<Rightarrow> string option"
  mail_fails :: bool
  num_text :: "rat \<Rightarrow> string"
  json_text :: "jsval \<Rightarrow> string"

text \<open>
  A request after the two middlewares: the decoded identity (\<^verbatim>\<open>req.user?.username\<close>,
  \<^verbatim>\<open>req.user?.role\<close>), the \<^verbatim>\<open>x-forwarded-for\<close> header and the socket's address, the
  route parameter, the \<^verbatim>\<open>include_deleted\<close> query parameter and the body. The route
  parameter is the row key it denotes; a parameter that denotes none makes the
  statement that binds it fail, which is a failure of \<open>fails\<close>.
\<close>

record request =
  user_username :: jsval
  user_role :: jsval
  forwarded_for :: "string option"
  remote_address :: "string option"
  params_id :: int
  include_deleted :: jsval
  body :: jsobject

section \<open>Tables\<close>

text \<open>
  Modelled from the spec: the schema of \<^verbatim>\<open>plots\<close>, \<^verbatim>\<open>deceased_records\<close> and
  \<^verbatim>\<open>cemeteries\<close> is not among the sources; the columns are those the statements of
  \<^verbatim>\<open>server.js\<close> name and section 3 of the specification lists. Keys are integers, a
  timestamp is a reading of the clock, and every other column holds the value bound to
  it (\<open>JNull\<close> is SQL's NULL). The \<^verbatim>\<open>coords\<close> column holds the document whose text
  \<^verbatim>\<open>JSON.stringify(coords)\<close> is bound. A row of \<^verbatim>\<open>deceased_records\<close> lists its other
  columns by name, as the handlers address them.
\<close>

record plot =
  p_id :: int
  cemetery_id :: int
  plot_code :: string
  status :: jsval
  owner_name :: jsval
  gender :: jsval
  payment_date :: jsval
  row_num :: jsval
  col_num :: jsval
  coords :: jsval
  deleted_at :: "nat option"
  created_at :: nat
  updated_at :: nat

record deceased =
  d_id :: int
  plot_id :: int
  cols :: "(string \<times> jsval) list"

text \<open>\<^verbatim>\<open>row.f\<close> of a row of \<^verbatim>\<open>deceased_records\<close>.\<close>

definition col :: "deceased \<Rightarrow> string \<Rightarrow> jsval" where
  "col d f = field (cols d) f"

record cemetery =
  c_id :: int
  c_name :: jsval

text \<open>The columns the INSERT of \<^verbatim>\<open>writeAuditSafe\<close> binds.\<close>

record audit =
  action :: string
  entity_type :: string
  entity_id :: "int option"
  a_cemetery_id :: "int option"
  a_plot_code :: "string option"
  actor_username :: jsval
  actor_role :: jsval
  ip_address :: jsval
  details :: jsval

text \<open>
  The world a handler changes: the tables, the next value of the two key sequences, the
  statements issued so far (failed ones too) and the bodies of the mails handed to the
  transport. What the handlers print on the console is left out.
\<close>

record world =
  plots :: "plot list"
  deceased_records :: "deceased list"
  cemeteries :: "cemetery list"
  audit_logs :: "audit list"
  plots_seq :: int
  deceased_seq :: int
  issued :: "query list"
  outbox :: "string list"

datatype payload =
    Err string
  | PlotRow plot
  | PlotRows "plot list"
  | DeceasedRow deceased
  | OkTrue

datatype response = Response nat payload

definition issue :: "query \<Rightarrow> world \<Rightarrow> world" where
  "issue q w = w\<lparr>issued := issued w @ [q]\<rparr>"

text \<open>
  The cast of a bound parameter to an integer key column: a number that is an integer,
  or a text of decimal digits with an optional sign between optional blanks. Anything
  else is refused and the statement fails. The range of the column is not modelled.
\<close>

fun digits_val :: "string \<Rightarrow> int \<Rightarrow> int option" where
  "digits_val [] acc = Some acc"
| "digits_val (c # cs) acc =
     (let n = of_char c :: nat
      in if 48 \<le> n \<and> n \<le> 57 then digits_val cs (10 * acc + int (n - 48)) else None)"

definition is_blank :: "char \<Rightarrow> bool" where
  "is_blank c = (of_char c \<in> {9, 10, 11, 12, 13, 32 :: nat})"

definition int_of_text :: "string \<Rightarrow> int option" where
  "int_of_text s =
     (case rev (dropWhile is_blank (rev (dropWhile is_blank s))) of
        [] \<Rightarrow> None
      | c # cs \<Rightarrow>
          if cs \<noteq> [] \<and> c = CHR ''-'' then map_option uminus (digits_val cs 0)
          else if cs \<noteq> [] \<and> c = CHR ''+'' then digits_val cs 0
          else digits_val (c # cs) 0)"

fun key_of :: "jsval \<Rightarrow> int option" where
  "key_of (JNum r) = (if of_int \<lfloor>r\<rfloor> = r then Some \<lfloor>r\<rfloor> else None)"
| "key_of (JStr s) = int_of_text s"
| "key_of v = None"

definition cast_error :: string where
  "cast_error = ''invalid input syntax for type bigint''"

section \<open>Audit recorder and notifier\<close>

text \<open>
  \<^verbatim>\<open>(req.headers["x-forwarded-for"] || "").split(",")[0].trim() ||
  req.socket?.remoteAddress || null\<close>.
\<close>

definition client_ip :: "request \<Rightarrow> jsval" where
  "client_ip req =
     (let first = trim (takeWhile (\<lambda>c. c \<noteq> CHR '','')
                    (case forwarded_for req of None \<Rightarrow> [] | Some h \<Rightarrow> h))
      in if first \<noteq> [] then JStr first
         else (case remote_address req of
                 None \<Rightarrow> JNull
               | Some a \<Rightarrow> (if a \<noteq> [] then JStr a else JNull)))"

text \<open>
  \<^verbatim>\<open>writeAuditSafe(req, {action, entity_type, entity_id, cemetery_id, plot_code,
  details})\<close>: one INSERT inside a \<^verbatim>\<open>try\<close>; the \<^verbatim>\<open>catch\<close> only logs. It returns
  nothing, so its whole effect is on the world.
\<close>

definition writeAuditSafe ::
  "env \<Rightarrow> request \<Rightarrow> string \<Rightarrow> string \<Rightarrow> int option \<Rightarrow> int option \<Rightarrow> string option \<Rightarrow> jsval
     \<Rightarrow> world \<Rightarrow> world" where
  "writeAuditSafe e req act etype eid cem code det w =
     (let w1 = issue Q_InsertAudit w
      in case fails e Q_InsertAudit of
           Some m \<Rightarrow> w1
         | None \<Rightarrow>
             w1\<lparr>audit_logs := audit_logs w1 @
               [\<lparr>action = act, entity_type = etype, entity_id = eid, a_cemetery_id = cem,
                 a_plot_code = code,
                 actor_username = js_or (user_username req) JNull,
                 actor_role = js_or (user_role req) JNull,
                 ip_address = client_ip req,
                 details = js_or det (JObj [])\<rparr>]\<rparr>)"

text \<open>
  \<^verbatim>\<open>sendMail({subject, html})\<close>: nothing when mail is not enabled; a failure of the
  transport is caught and logged. The subject line is left out of the model.
\<close>

definition sendMail :: "env \<Rightarrow> string \<Rightarrow> world \<Rightarrow> world" where
  "sendMail e html w =
     (if \<not> emailEnabled e then w
      else if mail_fails e then w
      else w\<lparr>outbox := outbox w @ [html]\<rparr>)"

definition nl :: string where
  "nl = [CHR 0x0A]"

text \<open>The four mail bodies, as functions of the values their templates interpolate.\<close>

definition plot_created_html ::
  "(rat \<Rightarrow> string) \<Rightarrow> jsval \<Rightarrow> jsval \<Rightarrow> jsval \<Rightarrow> jsval \<Rightarrow> jsval \<Rightarrow> string" where
  \<open>plot_created_html nt cemeteryName code stat username role =
     nl @ ''        <div style="font-family:Arial,sans-serif">'' @ nl
     @ ''          <h2>Plot Created</h2>'' @ nl
     @ ''          <p><b>Cemetery:</b> '' @ esc nt cemeteryName @ ''</p>'' @ nl
     @ ''          <p><b>Plot:</b> '' @ esc nt code @ ''</p>'' @ nl
     @ ''          <p><b>Status:</b> '' @ esc nt (js_or stat (JStr [])) @ ''</p>'' @ nl
     @ ''          <hr/>'' @ nl
     @ ''          <p><b>By:</b> '' @ esc nt (js_or username (JStr []))
     @ '' ('' @ esc nt (js_or role (JStr [])) @ '')</p>'' @ nl
     @ ''        </div>'' @ nl
     @ ''      ''\<close>

text \<open>
  The object both \<^verbatim>\<open><pre>\<close> blocks of the update mail print with
  \<^verbatim>\<open>JSON.stringify(..., null, 2)\<close>.
\<close>

definition plot_summary :: "plot \<Rightarrow> jsval" where
  "plot_summary p =
     JObj [(''status'', status p), (''owner_name'', owner_name p), (''gender'', gender p),
           (''row_num'', row_num p), (''col_num'', col_num p),
           (''has_coords'', JBool (truthy (coords p)))]"

definition plot_updated_html ::
  "(rat \<Rightarrow> string) \<Rightarrow> jsval \<Rightarrow> jsval \<Rightarrow> jsval \<Rightarrow> jsval \<Rightarrow> string \<Rightarrow> string \<Rightarrow> string" where
  \<open>plot_updated_html nt cemeteryName code username role before_text after_text =
     nl @ ''        <div style="font-family:Arial,sans-serif">'' @ nl
     @ ''          <h2>Plot Updated</h2>'' @ nl
     @ ''          <p><b>Cemetery:</b> '' @ esc nt (js_or cemeteryName (JStr [])) @ ''</p>'' @ nl
     @ ''          <p><b>Plot:</b> '' @ esc nt code @ ''</p>'' @ nl
     @ ''          <p><b>User:</b> '' @ esc nt (js_or username (JStr []))
     @ '' ('' @ esc nt (js_or role (JStr [])) @ '')</p>'' @ nl
     @ ''          <hr/>'' @ nl
     @ ''          <h3>Before</h3>'' @ nl
     @ ''          <pre>'' @ esc nt (JStr before_text) @ ''</pre>'' @ nl
     @ ''          <h3>After</h3>'' @ nl
     @ ''          <pre>'' @ esc nt (JStr after_text) @ ''</pre>'' @ nl
     @ ''        </div>'' @ nl
     @ ''      ''\<close>

definition plot_deleted_html ::
  "(rat \<Rightarrow> string) \<Rightarrow> jsval \<Rightarrow> jsval \<Rightarrow> jsval \<Rightarrow> jsval \<Rightarrow> string" where
  \<open>plot_deleted_html nt cemeteryName code username role =
     nl @ ''        <div style="font-family:Arial,sans-serif">'' @ nl
     @ ''          <h2>Plot Deleted</h2>'' @ nl
     @ ''          <p><b>Cemetery:</b> '' @ esc nt (js_or cemeteryName (JStr [])) @ ''</p>'' @ nl
     @ ''          <p><b>Plot:</b> '' @ esc nt code @ ''</p>'' @ nl
     @ ''          <p><b>Deleted by:</b> '' @ esc nt (js_or username (JStr []))
     @ '' ('' @ esc nt (js_or role (JStr [])) @ '')</p>'' @ nl
     @ ''        </div>'' @ nl
     @ ''      ''\<close>

definition deceased_added_html ::
  "(rat \<Rightarrow> string) \<Rightarrow> jsval \<Rightarrow> jsval \<Rightarrow> jsval \<Rightarrow> jsval \<Rightarrow> jsval \<Rightarrow> jsval \<Rightarrow> string" where
  \<open>deceased_added_html nt full_name plotId burial_type burial_date username role =
     nl @ ''        <div style="font-family:Arial,sans-serif">'' @ nl
     @ ''          <h2>Deceased record added</h2>'' @ nl
     @ ''          <p><b>Name:</b> '' @ esc nt full_name @ ''</p>'' @ nl
     @ ''          <p><b>Plot ID:</b> '' @ esc nt plotId @ ''</p>'' @ nl
     @ ''          <p><b>Type:</b> '' @ esc nt (js_or burial_type (JStr [])) @ ''</p>'' @ nl
     @ ''          <p><b>Burial date:</b> '' @ esc nt (js_or burial_date (JStr [])) @ ''</p>'' @ nl
     @ ''          <hr/>'' @ nl
     @ ''          <p><b>By:</b> '' @ esc nt (js_or username (JStr []))
     @ '' ('' @ esc nt (js_or role (JStr [])) @ '')</p>'' @ nl
     @ ''        </div>'' @ nl
     @ ''      ''\<close>

text \<open>\<^verbatim>\<open>e.message || "..."\<close> in a \<^verbatim>\<open>catch\<close>.\<close>

definition message_or :: "string \<Rightarrow> string \<Rightarrow> string" where
  "message_or m d = (if m \<noteq> [] then m else d)"

section \<open>POST /api/plots\<close>

text \<open>
  \<^verbatim>\<open>SELECT COUNT(*)::int AS n FROM plots WHERE cemetery_id=$1 AND deleted_at IS NULL\<close>
\<close>

definition count_plots :: "env \<Rightarrow> jsval \<Rightarrow> world \<Rightarrow> string + nat" where
  "count_plots e cid w =
     (case fails e Q_CountPlots of
        Some m \<Rightarrow> Inl m
      | None \<Rightarrow>
          (case key_of cid of
             None \<Rightarrow> Inl cast_error
           | Some c \<Rightarrow>
               Inr (length (filter (\<lambda>p. cemetery_id p = c \<and> deleted_at p = None) (plots w)))))"

text \<open>The row the INSERT stores and returns for a body \<open>b\<close> and a cemetery key \<open>c\<close>.\<close>

definition new_plot :: "env \<Rightarrow> int \<Rightarrow> jsobject \<Rightarrow> world \<Rightarrow> plot" where
  "new_plot e c b w =
     \<lparr>p_id = plots_seq w,
      cemetery_id = c,
      plot_code = trim (js_String (num_text e) (field b ''plot_code'')),
      status = js_or (field b ''status'') (JStr ''Available''),
      owner_name = js_or (field b ''owner_name'') JNull,
      gender = js_or (field b ''gender'') JNull,
      payment_date = js_or (field b ''payment_date'') JNull,
      row_num = js_nc (field b ''row_num'') JNull,
      col_num = js_nc (field b ''col_num'') JNull,
      coords = (if truthy (field b ''coords'') then field b ''coords'' else JNull),
      deleted_at = None,
      created_at = now e,
      updated_at = now e\<rparr>"

text \<open>\<^verbatim>\<open>SELECT name FROM cemeteries WHERE id=$1\<close>, then \<^verbatim>\<open>r.rows[0]?.name || ""\<close>.\<close>

definition getCemeteryName :: "env \<Rightarrow> int \<Rightarrow> world \<Rightarrow> string + jsval" where
  "getCemeteryName e c w =
     (case fails e Q_CemeteryName of
        Some m \<Rightarrow> Inl m
      | None \<Rightarrow>
          (case filter (\<lambda>x. c_id x = c) (cemeteries w) of
             [] \<Rightarrow> Inr (JStr [])
           | x # _ \<Rightarrow> Inr (js_or (c_name x) (JStr []))))"

text \<open>What the handler does once \<^verbatim>\<open>created.rows[0]\<close> is in hand.\<close>

definition plot_created :: "env \<Rightarrow> request \<Rightarrow> plot \<Rightarrow> world \<Rightarrow> response \<times> world" where
  "plot_created e req p w =
     (let w1 = writeAuditSafe e req ''CREATE_PLOT'' ''plot'' (Some (p_id p))
                 (Some (cemetery_id p)) (Some (plot_code p))
                 (JObj [(''status'', status p), (''owner_name'', owner_name p),
                        (''gender'', gender p)]) w;
          w2 = issue Q_CemeteryName w1
      in case getCemeteryName e (cemetery_id p) w2 of
           Inl m \<Rightarrow> (Response 500 (Err (message_or m ''Failed to create plot'')), w2)
         | Inr cemeteryName \<Rightarrow>
             (Response 201 (PlotRow p),
              sendMail e (plot_created_html (num_text e) cemeteryName (JStr (plot_code p))
                            (status p) (user_username req) (user_role req)) w2))"

text \<open>The INSERT with \<^verbatim>\<open>RETURNING *\<close>: the new row and the world that holds it.\<close>

definition insert_plot :: "env \<Rightarrow> jsobject \<Rightarrow> world \<Rightarrow> string + plot \<times> world" where
  "insert_plot e b w =
     (case fails e Q_InsertPlot of
        Some m \<Rightarrow> Inl m
      | None \<Rightarrow>
          (case key_of (field b ''cemetery_id'') of
             None \<Rightarrow> Inl cast_error
           | Some c \<Rightarrow>
               (let p = new_plot e c b w
                in Inr (p, w\<lparr>plots := plots w @ [p], plots_seq := plots_seq w + 1\<rparr>))))"

definition capacity_message :: "env \<Rightarrow> string" where
  "capacity_message e =
     ''Plot limit reached ('' @ num_text e (of_nat (PLOTS_PER_CEMETERY_LIMIT e))
     @ '' plots per cemetery)''"

definition create_plot :: "env \<Rightarrow> request \<Rightarrow> world \<Rightarrow> response \<times> world" where
  "create_plot e req w =
     (let cid = field (body req) ''cemetery_id'';
          code = field (body req) ''plot_code''
      in if \<not> truthy cid \<or> \<not> truthy code then
           (Response 400 (Err ''cemetery_id and plot_code are required''), w)
         else
           (let w1 = issue Q_CountPlots w
            in (case count_plots e cid w1 of
                  Inl m \<Rightarrow> (Response 500 (Err (message_or m ''Failed to create plot'')), w1)
                | Inr n \<Rightarrow>
                    if n \<ge> PLOTS_PER_CEMETERY_LIMIT e then
                      (Response 400 (Err (capacity_message e)), w1)
                    else
                      (let w2 = issue Q_InsertPlot w1
                       in (case insert_plot e (body req) w2 of
                             Inl m \<Rightarrow>
                               (Response 500 (Err (message_or m ''Failed to create plot'')), w2)
                           | Inr (p, w3) \<Rightarrow> plot_created e req p w3)))))"

section \<open>PATCH /api/plots/:id\<close>

text \<open>
  \<^verbatim>\<open>SELECT p.*, c.name AS cemetery_name FROM plots p JOIN cemeteries c ON
  c.id = p.cemetery_id WHERE p.id=$1 AND p.deleted_at IS NULL\<close>: each row is a plot with
  the name of its cemetery.
\<close>

definition select_plot :: "env \<Rightarrow> int \<Rightarrow> world \<Rightarrow> string + (plot \<times> jsval) list" where
  "select_plot e i w =
     (case fails e Q_SelectPlot of
        Some m \<Rightarrow> Inl m
      | None \<Rightarrow>
          Inr (concat (map (\<lambda>p. map (\<lambda>c. (p, c_name c))
                                  (filter (\<lambda>c. c_id c = cemetery_id p) (cemeteries w)))
                 (filter (\<lambda>p. p_id p = i \<and> deleted_at p = None) (plots w)))))"

text \<open>SQL's \<^verbatim>\<open>COALESCE(a, b)\<close> of two values.\<close>

definition coalesce :: "jsval \<Rightarrow> jsval \<Rightarrow> jsval" where
  "coalesce a b = (if a = JNull then b else a)"

text \<open>
  The SET clause of the UPDATE on one row, with the parameters the handler binds:
  \<^verbatim>\<open>owner_name ?? null\<close>, ..., \<^verbatim>\<open>col_num ?? null\<close> and
  \<^verbatim>\<open>coords ? JSON.stringify(coords) : null\<close>.
\<close>

definition set_plot :: "env \<Rightarrow> jsobject \<Rightarrow> plot \<Rightarrow> plot" where
  "set_plot e b p =
     p\<lparr>owner_name := coalesce (js_nc (field b ''owner_name'') JNull) (owner_name p),
       gender := coalesce (js_nc (field b ''gender'') JNull) (gender p),
       status := coalesce (js_nc (field b ''status'') JNull) (status p),
       payment_date := coalesce (js_nc (field b ''payment_date'') JNull) (payment_date p),
       row_num := coalesce (js_nc (field b ''row_num'') JNull) (row_num p),
       col_num := coalesce (js_nc (field b ''col_num'') JNull) (col_num p),
       coords := coalesce (if truthy (field b ''coords'') then field b ''coords'' else JNull)
                   (coords p),
       updated_at := now e\<rparr>"

text \<open>\<^verbatim>\<open>UPDATE plots SET ... WHERE id = $8 RETURNING *\<close>: the returned rows and the world.\<close>

definition update_plots :: "env \<Rightarrow> int \<Rightarrow> jsobject \<Rightarrow> world \<Rightarrow> string + plot list \<times> world" where
  "update_plots e i b w =
     (case fails e Q_UpdatePlot of
        Some m \<Rightarrow> Inl m
      | None \<Rightarrow>
          (let ps = map (\<lambda>p. if p_id p = i then set_plot e b p else p) (plots w)
           in Inr (filter (\<lambda>p. p_id p = i) ps, w\<lparr>plots := ps\<rparr>)))"

text \<open>
  The \<^verbatim>\<open>details\<close> of the update's audit entry: \<^verbatim>\<open>{status, owner_name, gender,
  has_coords}\<close> of a row.
\<close>

definition audit_snapshot :: "plot \<Rightarrow> jsval" where
  "audit_snapshot p =
     JObj [(''status'', status p), (''owner_name'', owner_name p), (''gender'', gender p),
           (''has_coords'', JBool (truthy (coords p)))]"

text \<open>\<^verbatim>\<open>after.plot_code || after.id\<close> and \<^verbatim>\<open>plot.plot_code || plot.id\<close>.\<close>

definition code_or_id :: "plot \<Rightarrow> jsval" where
  "code_or_id p = (if plot_code p \<noteq> [] then JStr (plot_code p) else JNum (of_int (p_id p)))"

definition plot_updated ::
  "env \<Rightarrow> request \<Rightarrow> plot \<Rightarrow> jsval \<Rightarrow> plot \<Rightarrow> world \<Rightarrow> response \<times> world" where
  "plot_updated e req before cemetery_name after w =
     (let w1 = writeAuditSafe e req ''UPDATE_PLOT'' ''plot'' (Some (p_id after))
                 (Some (cemetery_id after)) (Some (plot_code after))
                 (JObj [(''before'', audit_snapshot before),
                        (''after'', audit_snapshot after)]) w
      in (Response 200 (PlotRow after),
          sendMail e (plot_updated_html (num_text e) cemetery_name (code_or_id after)
                        (user_username req) (user_role req)
                        (json_text e (plot_summary before))
                        (json_text e (plot_summary after))) w1))"

text \<open>
  Every failure inside the handler's \<^verbatim>\<open>try\<close>, a missing \<^verbatim>\<open>result.rows[0]\<close> too, is
  answered with the fixed message.
\<close>

definition update_plot :: "env \<Rightarrow> request \<Rightarrow> world \<Rightarrow> response \<times> world" where
  "update_plot e req w =
     (let i = params_id req;
          w1 = issue Q_SelectPlot w
      in (case select_plot e i w1 of
            Inl m \<Rightarrow> (Response 500 (Err ''Failed to update plot''), w1)
          | Inr rows \<Rightarrow>
              (case rows of
                 [] \<Rightarrow> (Response 404 (Err ''Plot not found''), w1)
               | r # _ \<Rightarrow>
                   (let w2 = issue Q_UpdatePlot w1
                    in (case update_plots e i (body req) w2 of
                          Inl m \<Rightarrow> (Response 500 (Err ''Failed to update plot''), w2)
                        | Inr (returned, w3) \<Rightarrow>
                            (case returned of
                               [] \<Rightarrow> (Response 500 (Err ''Failed to update plot''), w3)
                             | after # _ \<Rightarrow>
                                 plot_updated e req (fst r) (snd r) after w3))))))"

section \<open>DELETE /api/plots/:id\<close>

text \<open>\<^verbatim>\<open>UPDATE plots SET deleted_at = NOW(), updated_at = NOW() WHERE id=$1\<close>\<close>

definition soft_delete :: "env \<Rightarrow> int \<Rightarrow> world \<Rightarrow> string + world" where
  "soft_delete e i w =
     (case fails e Q_SoftDeletePlot of
        Some m \<Rightarrow> Inl m
      | None \<Rightarrow>
          Inr (w\<lparr>plots :=
                 map (\<lambda>p. if p_id p = i
                          then p\<lparr>deleted_at := Some (now e), updated_at := now e\<rparr> else p)
                   (plots w)\<rparr>))"

definition plot_deleted :: "env \<Rightarrow> request \<Rightarrow> plot \<Rightarrow> jsval \<Rightarrow> world \<Rightarrow> response \<times> world" where
  "plot_deleted e req p cemetery_name w =
     (let w1 = writeAuditSafe e req ''DELETE_PLOT'' ''plot'' (Some (p_id p))
                 (Some (cemetery_id p)) (Some (plot_code p))
                 (JObj [(''status'', status p), (''owner_name'', owner_name p),
                        (''gender'', gender p)]) w
      in (Response 200 OkTrue,
          sendMail e (plot_deleted_html (num_text e) cemetery_name (code_or_id p)
                        (user_username req) (user_role req)) w1))"

definition delete_plot :: "env \<Rightarrow> request \<Rightarrow> world \<Rightarrow> response \<times> world" where
  "delete_plot e req w =
     (let i = params_id req;
          w1 = issue Q_SelectPlot w
      in (case select_plot e i w1 of
            Inl m \<Rightarrow> (Response 500 (Err (message_or m ''Failed to delete plot'')), w1)
          | Inr rows \<Rightarrow>
              (case rows of
                 [] \<Rightarrow> (Response 404 (Err ''Plot not found or already deleted''), w1)
               | r # _ \<Rightarrow>
                   (let w2 = issue Q_SoftDeletePlot w1
                    in (case soft_delete e i w2 of
                          Inl m \<Rightarrow>
                            (Response 500 (Err (message_or m ''Failed to delete plot'')), w2)
                        | Inr w3 \<Rightarrow> plot_deleted e req (fst r) (snd r) w3)))))"

section \<open>GET /api/cemeteries/:id/plots\<close>




section \<open>POST /api/plots/:plotId/deceased\<close>

text \<open>
  \<^verbatim>\<open>(burial_type || "BURIAL").toUpperCase()\<close> is evaluated while the parameter array is
  built, before \<^verbatim>\<open>pool.query\<close> is called: a value that is not a string has no such
  method and the call throws a TypeError, whose message the \<^verbatim>\<open>catch\<close> sends.
\<close>

definition not_a_function :: string where
  \<open>not_a_function = ''(burial_type || "BURIAL").toUpperCase is not a function''\<close>

definition burial_type_param :: "jsobject \<Rightarrow> string + string" where
  "burial_type_param b =
     (case js_or (field b ''burial_type'') (JStr ''BURIAL'') of
        JStr s \<Rightarrow> Inr (toUpperCase s)
      | _ \<Rightarrow> Inl not_a_function)"

text \<open>The columns the INSERT binds, from the body.\<close>

definition new_cols :: "env \<Rightarrow> jsobject \<Rightarrow> string \<Rightarrow> (string \<times> jsval) list" where
  "new_cols e b burial =
     [(''deceased_full_name'',
         JStr (trim (js_String (num_text e) (field b ''deceased_full_name'')))),
      (''id_number'', js_or (field b ''id_number'') JNull),
      (''date_of_birth'', js_or (field b ''date_of_birth'') JNull),
      (''date_of_death'', js_or (field b ''date_of_death'') JNull),
      (''burial_type'', JStr burial),
      (''burial_date'', js_or (field b ''burial_date'') JNull),
      (''next_of_kin_name'', js_or (field b ''next_of_kin_name'') JNull),
      (''next_of_kin_relationship'', js_or (field b ''next_of_kin_relationship'') JNull),
      (''next_of_kin_phone'', js_or (field b ''next_of_kin_phone'') JNull),
      (''next_of_kin_email'', js_or (field b ''next_of_kin_email'') JNull),
      (''next_of_kin_address'', js_or (field b ''next_of_kin_address'') JNull),
      (''undertaker_name'', js_or (field b ''undertaker_name'') JNull),
      (''undertaker_phone'', js_or (field b ''undertaker_phone'') JNull),
      (''cause_of_death'', js_or (field b ''cause_of_death'') JNull),
      (''notes'', js_or (field b ''notes'') JNull)]"

definition insert_deceased ::
  "env \<Rightarrow> int \<Rightarrow> jsobject \<Rightarrow> string \<Rightarrow> world \<Rightarrow> string + deceased \<times> world" where
  "insert_deceased e plotId b burial w =
     (case fails e Q_InsertDeceased of
        Some m \<Rightarrow> Inl m
      | None \<Rightarrow>
          (let d = \<lparr>d_id = deceased_seq w, plot_id = plotId, cols = new_cols e b burial\<rparr>
           in Inr (d, w\<lparr>deceased_records := deceased_records w @ [d],
                        deceased_seq := deceased_seq w + 1\<rparr>)))"

definition deceased_created ::
  "env \<Rightarrow> request \<Rightarrow> int \<Rightarrow> deceased \<Rightarrow> world \<Rightarrow> response \<times> world" where
  "deceased_created e req plotId created w =
     (let w1 = writeAuditSafe e req ''CREATE_DECEASED'' ''deceased'' (Some (d_id created))
                 None None
                 (JObj [(''plot_id'', JNum (of_int plotId)),
                        (''deceased_full_name'', col created ''deceased_full_name''),
                        (''burial_type'', col created ''burial_type'')]) w
      in (Response 201 (DeceasedRow created),
          sendMail e (deceased_added_html (num_text e)
                        (col created ''deceased_full_name'') (JNum (of_int plotId))
                        (col created ''burial_type'') (col created ''burial_date'')
                        (user_username req) (user_role req)) w1))"

definition create_deceased :: "env \<Rightarrow> request \<Rightarrow> world \<Rightarrow> response \<times> world" where
  "create_deceased e req w =
     (let plotId = params_id req;
          full_name = field (body req) ''deceased_full_name''
      in if \<not> truthy full_name \<or> length (trim (js_String (num_text e) full_name)) < 2 then
           (Response 400 (Err ''deceased_full_name is required''), w)
         else
           (case burial_type_param (body req) of
              Inl m \<Rightarrow> (Response 500 (Err m), w)
            | Inr burial \<Rightarrow>
                (let w1 = issue Q_InsertDeceased w
                 in (case insert_deceased e plotId (body req) burial w1 of
                       Inl m \<Rightarrow> (Response 500 (Err m), w1)
                     | Inr (created, w2) \<Rightarrow> deceased_created e req plotId created w2))))"

section \<open>PATCH /api/deceased/:id\<close>

definition fields :: "string list" where
  "fields =
     [''deceased_full_name'', ''id_number'', ''date_of_birth'', ''date_of_death'',
      ''burial_type'', ''burial_date'', ''next_of_kin_name'', ''next_of_kin_relationship'',
      ''next_of_kin_phone'', ''next_of_kin_email'', ''next_of_kin_address'',
      ''undertaker_name'', ''undertaker_phone'', ''cause_of_death'', ''notes'']"

text \<open>\<^verbatim>\<open>req.body?.[f] === "" ? null : req.body?.[f] ?? null\<close>\<close>

definition bound_value :: "jsobject \<Rightarrow> string \<Rightarrow> jsval" where
  "bound_value b f = (if field b f = JStr [] then JNull else js_nc (field b f) JNull)"

text \<open>
  The SET clause \<^verbatim>\<open>f = COALESCE($i, f)\<close> for every \<open>f\<close> of \<open>fields\<close>, on the columns
  of one row.
\<close>

definition set_cols :: "jsobject \<Rightarrow> (string \<times> jsval) list \<Rightarrow> (string \<times> jsval) list" where
  "set_cols b old =
     map (\<lambda>kv. (fst kv, if fst kv \<in> set fields then coalesce (bound_value b (fst kv)) (snd kv)
                         else snd kv)) old"

definition update_deceased_rows ::
  "env \<Rightarrow> int \<Rightarrow> jsobject \<Rightarrow> world \<Rightarrow> string + deceased list \<times> world" where
  "update_deceased_rows e i b w =
     (case fails e Q_UpdateDeceased of
        Some m \<Rightarrow> Inl m
      | None \<Rightarrow>
          (let ds = map (\<lambda>d. if d_id d = i then d\<lparr>cols := set_cols b (cols d)\<rparr> else d)
                      (deceased_records w)
           in Inr (filter (\<lambda>d. d_id d = i) ds, w\<lparr>deceased_records := ds\<rparr>)))"

definition update_deceased :: "env \<Rightarrow> request \<Rightarrow> world \<Rightarrow> response \<times> world" where
  "update_deceased e req w =
     (let i = params_id req;
          w1 = issue Q_UpdateDeceased w
      in (case update_deceased_rows e i (body req) w1 of
            Inl m \<Rightarrow> (Response 500 (Err m), w1)
          | Inr (returned, w2) \<Rightarrow>
              (case returned of
                 [] \<Rightarrow> (Response 404 (Err ''Record not found''), w2)
               | r # _ \<Rightarrow>
                   (Response 200 (DeceasedRow r),
                    writeAuditSafe e req ''UPDATE_DECEASED'' ''deceased'' (Some (d_id r))
                      None None
                      (JObj [(''updated_fields'', JArr (map (\<lambda>kv. JStr (fst kv)) (body req)))])
                      w2))))"

section \<open>Vocabulary of the properties\<close>

text \<open>The five mutating handlers.\<close>

definition mutating_handlers :: "(env \<Rightarrow> request \<Rightarrow> world \<Rightarrow> response \<times> world) list" where
  "mutating_handlers = [create_plot, update_plot, delete_plot, create_deceased, update_deceased]"

text \<open>The environment \<open>e\<close> with the outcome of the audit INSERT set: \<open>Some m\<close> throws \<open>m\<close>.\<close>

definition audit_fault :: "env \<Rightarrow> string option \<Rightarrow> env" where
  "audit_fault e m = e\<lparr>fails := (fails e)(Q_InsertAudit := m)\<rparr>"

text \<open>A world without its audit table: what is left when the audit entries are not looked at.\<close>

definition no_audit :: "world \<Rightarrow> world" where
  "no_audit w = w\<lparr>audit_logs := []\<rparr>"



section \<open>Sample data\<close>

text \<open>A decimal text for the integers, as \<^verbatim>\<open>String(n)\<close> prints the small ones.\<close>

fun decimal :: "nat \<Rightarrow> nat \<Rightarrow> string" where
  "decimal 0 n = []"
| "decimal (Suc k) n =
     (if n < 10 then [char_of (48 + n)] else decimal k (n div 10) @ [char_of (48 + n mod 10)])"

definition sample_num_text :: "rat \<Rightarrow> string" where
  "sample_num_text r = (if r < 0 then ''-'' else []) @ decimal 20 (nat \<lfloor>\<bar>r\<bar>\<rfloor>)"

text \<open>The default configuration with mail not configured, and no failure.\<close>

definition env0 :: env where
  "env0 = \<lparr>PLOTS_PER_CEMETERY_LIMIT = 10, emailEnabled = False, now = 100,
           fails = (\<lambda>q. None), mail_fails = False,
           num_text = sample_num_text, json_text = (\<lambda>v. ''{}'')\<rparr>"


text \<open>A request of the manager for the route parameter \<open>i\<close> with the body \<open>b\<close>.\<close>

definition req_of :: "int \<Rightarrow> jsobject \<Rightarrow> request" where
  "req_of i b =
     \<lparr>user_username = JStr ''manager'', user_role = JStr ''manager'',
      forwarded_for = None, remote_address = Some ''10.0.0.7'', params_id = i,
      include_deleted = JUndefined, body = b\<rparr>"

definition plot_row :: "int \<Rightarrow> string \<Rightarrow> nat option \<Rightarrow> plot" where
  "plot_row i code d =
     \<lparr>p_id = i, cemetery_id = 1, plot_code = code, status = JStr ''Available'',
      owner_name = JNull, gender = JNull, payment_date = JNull, row_num = JNull,
      col_num = JNull, coords = JNull, deleted_at = d, created_at = 1, updated_at = 1\<rparr>"

text \<open>One cemetery and nothing else.\<close>

definition world0 :: world where
  "world0 = \<lparr>plots = [], deceased_records = [],
             cemeteries = [\<lparr>c_id = 1, c_name = JStr ''North''\<rparr>], audit_logs = [],
             plots_seq = 1, deceased_seq = 1, issued = [], outbox = []\<rparr>"

text \<open>The cemetery with one plot and one deceased record in it.\<close>

definition world1 :: world where
  "world1 =
     world0\<lparr>plots := [plot_row 1 ''A-01'' None], plots_seq := 2,
            deceased_records :=
              [\<lparr>d_id = 1, plot_id = 1,
                cols = [(''deceased_full_name'', JStr ''Ann Lee''), (''id_number'', JNull),
                        (''date_of_birth'', JNull), (''date_of_death'', JNull),
                        (''burial_type'', JStr ''BURIAL''), (''burial_date'', JNull),
                        (''next_of_kin_name'', JNull), (''next_of_kin_relationship'', JNull),
                        (''next_of_kin_phone'', JNull), (''next_of_kin_email'', JNull),
                        (''next_of_kin_address'', JNull), (''undertaker_name'', JNull),
                        (''undertaker_phone'', JNull), (''cause_of_death'', JNull),
                        (''notes'', JStr ''north gate'')]\<rparr>],
            deceased_seq := 2\<rparr>"


text \<open>The status code of a response, and whether it reports success.\<close>

definition status_code :: "response \<Rightarrow> nat" where
  "status_code r = (case r of Response c b \<Rightarrow> c)"

definition succeeded :: "response \<Rightarrow> bool" where
  "succeeded r = (status_code r < 400)"

text \<open>
  Exactly one audit entry was appended between two worlds, with the action tag \<open>tag\<close> and
  the entity id \<open>i\<close>.
\<close>

definition audit_added :: "world \<Rightarrow> world \<Rightarrow> string \<Rightarrow> int \<Rightarrow> bool" where
  "audit_added w w' tag i =
     (\<exists>a. audit_logs w' = audit_logs w @ [a] \<and> action a = tag \<and> entity_id a = Some i)"

text \<open>A request to create plot \<^verbatim>\<open>A-02\<close> in cemetery 1, and the row it creates in \<open>world0\<close>.\<close>

definition req_create :: request where
  "req_create = req_of 0 [(''cemetery_id'', JNum 1), (''plot_code'', JStr '' A-02 '')]"

definition row_created :: plot where
  "row_created = (plot_row 1 ''A-02'' None)\<lparr>created_at := 100, updated_at := 100\<rparr>"

text \<open>The number of non-deleted plots of cemetery \<open>c\<close>: what the count statement returns.\<close>

definition live_in :: "int \<Rightarrow> world \<Rightarrow> nat" where
  "live_in c w = length (filter (\<lambda>p. cemetery_id p = c \<and> deleted_at p = None) (plots w))"



text \<open>A request to create a plot whose code is three spaces.\<close>

definition req_blank_code :: request where
  "req_blank_code = req_of 0 [(''cemetery_id'', JNum 1), (''plot_code'', JStr ''   '')]"

















text \<open>
  The key discipline of the plot table: ids are unique and below the next value of the
  sequence.
\<close>

definition keys_fresh :: "world \<Rightarrow> bool" where
  "keys_fresh w =
     (distinct (map p_id (plots w)) \<and> (\<forall>p \<in> set (plots w). p_id p < plots_seq w))"

section \<open>Basic facts\<close>

lemma issue_proj [simp]:
  "plots (issue q w) = plots w"
  "deceased_records (issue q w) = deceased_records w"
  "cemeteries (issue q w) = cemeteries w"
  "audit_logs (issue q w) = audit_logs w"
  "plots_seq (issue q w) = plots_seq w"
  "deceased_seq (issue q w) = deceased_seq w"
  "issued (issue q w) = issued w @ [q]"
  "outbox (issue q w) = outbox w"
  by (simp_all add: issue_def)

lemma audit_proj [simp]:
  "plots (writeAuditSafe e req a t i c p d w) = plots w"
  "deceased_records (writeAuditSafe e req a t i c p d w) = deceased_records w"
  "cemeteries (writeAuditSafe e req a t i c p d w) = cemeteries w"
  "plots_seq (writeAuditSafe e req a t i c p d w) = plots_seq w"
  "deceased_seq (writeAuditSafe e req a t i c p d w) = deceased_seq w"
  "issued (writeAuditSafe e req a t i c p d w) = issued w @ [Q_InsertAudit]"
  "outbox (writeAuditSafe e req a t i c p d w) = outbox w"
  by (simp_all add: writeAuditSafe_def Let_def split: option.splits)

lemma mail_proj [simp]:
  "plots (sendMail e h w) = plots w"
  "deceased_records (sendMail e h w) = deceased_records w"
  "cemeteries (sendMail e h w) = cemeteries w"
  "audit_logs (sendMail e h w) = audit_logs w"
  "plots_seq (sendMail e h w) = plots_seq w"
  "deceased_seq (sendMail e h w) = deceased_seq w"
  "issued (sendMail e h w) = issued w"
  by (simp_all add: sendMail_def)


text \<open>What a statement that did not fail returned, and the world it left.\<close>

lemma insert_plot_Inr:
  "insert_plot e b w = Inr (p, w') \<Longrightarrow>
     fails e Q_InsertPlot = None \<and>
     (\<exists>c. key_of (field b ''cemetery_id'') = Some c \<and> p = new_plot e c b w) \<and>
     w' = w\<lparr>plots := plots w @ [p], plots_seq := plots_seq w + 1\<rparr>"
  by (auto simp: insert_plot_def Let_def split: option.splits)

lemma update_plots_Inr:
  "update_plots e i b w = Inr (rs, w') \<Longrightarrow>
     fails e Q_UpdatePlot = None \<and>
     w' = w\<lparr>plots := map (\<lambda>p. if p_id p = i then set_plot e b p else p) (plots w)\<rparr> \<and>
     rs = filter (\<lambda>p. p_id p = i) (plots w')"
  by (auto simp: update_plots_def Let_def split: option.splits)

lemma soft_delete_Inr:
  "soft_delete e i w = Inr w' \<Longrightarrow>
     fails e Q_SoftDeletePlot = None \<and>
     w' = w\<lparr>plots := map (\<lambda>p. if p_id p = i
                               then p\<lparr>deleted_at := Some (now e), updated_at := now e\<rparr> else p)
                        (plots w)\<rparr>"
  by (auto simp: soft_delete_def split: option.splits)

lemma insert_deceased_Inr:
  "insert_deceased e i b burial w = Inr (d, w') \<Longrightarrow>
     fails e Q_InsertDeceased = None \<and>
     d = \<lparr>d_id = deceased_seq w, plot_id = i, cols = new_cols e b burial\<rparr> \<and>
     w' = w\<lparr>deceased_records := deceased_records w @ [d], deceased_seq := deceased_seq w + 1\<rparr>"
  by (auto simp: insert_deceased_def Let_def split: option.splits)

lemma update_deceased_rows_Inr:
  "update_deceased_rows e i b w = Inr (rs, w') \<Longrightarrow>
     fails e Q_UpdateDeceased = None \<and>
     w' = w\<lparr>deceased_records :=
             map (\<lambda>d. if d_id d = i then d\<lparr>cols := set_cols b (cols d)\<rparr> else d)
               (deceased_records w)\<rparr> \<and>
     rs = filter (\<lambda>d. d_id d = i) (deceased_records w')"
  by (auto simp: update_deceased_rows_def Let_def split: option.splits)

section \<open>Escaping and the mail bodies\<close>



















section \<open>The audit write cannot change the answer\<close>

lemma af_simps [simp]:
  "PLOTS_PER_CEMETERY_LIMIT (audit_fault e x) = PLOTS_PER_CEMETERY_LIMIT e"
  "emailEnabled (audit_fault e x) = emailEnabled e"
  "now (audit_fault e x) = now e"
  "mail_fails (audit_fault e x) = mail_fails e"
  "num_text (audit_fault e x) = num_text e"
  "json_text (audit_fault e x) = json_text e"
  "fails (audit_fault e x) Q_InsertAudit = x"
  "q \<noteq> Q_InsertAudit \<Longrightarrow> fails (audit_fault e x) q = fails e q"
  by (simp_all add: audit_fault_def)

lemma af_rows:
  "new_plot (audit_fault e x) = new_plot e"
  "set_plot (audit_fault e x) = set_plot e"
  "new_cols (audit_fault e x) = new_cols e"
  by (simp_all add: fun_eq_iff new_plot_def set_plot_def new_cols_def)

lemma af_queries:
  "count_plots (audit_fault e x) = count_plots e"
  "insert_plot (audit_fault e x) = insert_plot e"
  "getCemeteryName (audit_fault e x) = getCemeteryName e"
  "select_plot (audit_fault e x) = select_plot e"
  "update_plots (audit_fault e x) = update_plots e"
  "soft_delete (audit_fault e x) = soft_delete e"
  "insert_deceased (audit_fault e x) = insert_deceased e"
  "update_deceased_rows (audit_fault e x) = update_deceased_rows e"
  "sendMail (audit_fault e x) = sendMail e"
  "capacity_message (audit_fault e x) = capacity_message e"
  by (simp_all add: fun_eq_iff count_plots_def insert_plot_def getCemeteryName_def select_plot_def
      update_plots_def soft_delete_def insert_deceased_def update_deceased_rows_def sendMail_def
      capacity_message_def af_rows Let_def split: option.splits cong: if_cong)

lemma no_audit_write:
  "no_audit (writeAuditSafe e req a t i c p d w) = issue Q_InsertAudit (no_audit w)"
  by (simp add: writeAuditSafe_def no_audit_def issue_def Let_def split: option.splits)

lemma no_audit_sendMail: "no_audit (sendMail e h w) = sendMail e h (no_audit w)"
  by (simp add: sendMail_def no_audit_def)

lemma no_audit_issue: "no_audit (issue q w) = issue q (no_audit w)"
  by (simp add: issue_def no_audit_def)

lemma getCemeteryName_frame:
  "cemeteries w = cemeteries w' \<Longrightarrow> getCemeteryName e c w = getCemeteryName e c w'"
  by (simp add: getCemeteryName_def cong: option.case_cong)

lemma plot_created_af:
  "fst (plot_created (audit_fault e x) req p w) = fst (plot_created e req p w)"
  "no_audit (snd (plot_created (audit_fault e x) req p w)) = no_audit (snd (plot_created e req p w))"
  by (simp_all add: plot_created_def af_queries Let_def no_audit_write no_audit_sendMail no_audit_issue
      getCemeteryName_frame [of "issue Q_CemeteryName (writeAuditSafe (audit_fault e x) req a t i c q d w)"
         "issue Q_CemeteryName (writeAuditSafe e req a t i c q d w)" for a t i c q d]
      split: sum.splits)

lemma create_plot_af:
  "fst (create_plot (audit_fault e x) req w) = fst (create_plot e req w)"
  "no_audit (snd (create_plot (audit_fault e x) req w)) = no_audit (snd (create_plot e req w))"
  by (simp_all add: create_plot_def af_queries plot_created_af Let_def split: sum.splits prod.splits)

lemma plot_updated_af:
  "fst (plot_updated (audit_fault e x) req b n a w) = fst (plot_updated e req b n a w)"
  "no_audit (snd (plot_updated (audit_fault e x) req b n a w)) = no_audit (snd (plot_updated e req b n a w))"
  by (simp_all add: plot_updated_def af_queries Let_def no_audit_write no_audit_sendMail)

lemma update_plot_af:
  "fst (update_plot (audit_fault e x) req w) = fst (update_plot e req w)"
  "no_audit (snd (update_plot (audit_fault e x) req w)) = no_audit (snd (update_plot e req w))"
  by (simp_all add: update_plot_def af_queries plot_updated_af Let_def
      split: sum.splits prod.splits list.splits)

lemma plot_deleted_af:
  "fst (plot_deleted (audit_fault e x) req p n w) = fst (plot_deleted e req p n w)"
  "no_audit (snd (plot_deleted (audit_fault e x) req p n w)) = no_audit (snd (plot_deleted e req p n w))"
  by (simp_all add: plot_deleted_def af_queries Let_def no_audit_write no_audit_sendMail)

lemma delete_plot_af:
  "fst (delete_plot (audit_fault e x) req w) = fst (delete_plot e req w)"
  "no_audit (snd (delete_plot (audit_fault e x) req w)) = no_audit (snd (delete_plot e req w))"
  by (simp_all add: delete_plot_def af_queries plot_deleted_af Let_def
      split: sum.splits prod.splits list.splits)

lemma deceased_created_af:
  "fst (deceased_created (audit_fault e x) req i d w) = fst (deceased_created e req i d w)"
  "no_audit (snd (deceased_created (audit_fault e x) req i d w)) = no_audit (snd (deceased_created e req i d w))"
  by (simp_all add: deceased_created_def af_queries Let_def no_audit_write no_audit_sendMail)

lemma create_deceased_af:
  "fst (create_deceased (audit_fault e x) req w) = fst (create_deceased e req w)"
  "no_audit (snd (create_deceased (audit_fault e x) req w)) = no_audit (snd (create_deceased e req w))"
  by (simp_all add: create_deceased_def af_queries deceased_created_af Let_def
      split: sum.splits prod.splits)

lemma update_deceased_af:
  "fst (update_deceased (audit_fault e x) req w) = fst (update_deceased e req w)"
  "no_audit (snd (update_deceased (audit_fault e x) req w)) = no_audit (snd (update_deceased e req w))"
  by (simp_all add: update_deceased_def af_queries Let_def no_audit_write
      split: sum.splits prod.splits list.splits)

lemma handlers_af:
  assumes "h \<in> set mutating_handlers"
  shows "fst (h (audit_fault e x) req w) = fst (h e req w)"
    and "no_audit (snd (h (audit_fault e x) req w)) = no_audit (snd (h e req w))"
  using assms create_plot_af update_plot_af delete_plot_af create_deceased_af update_deceased_af
  by (auto simp: mutating_handlers_def)

text \<open>A failing audit INSERT leaves the audit table as it was.\<close>

lemma audit_logs_failed:
  "fails e Q_InsertAudit = Some m \<Longrightarrow>
     audit_logs (writeAuditSafe e req a t i c p d w) = audit_logs w"
  by (simp add: writeAuditSafe_def Let_def)

lemma handlers_audit_failed:
  assumes "h \<in> set mutating_handlers" "fails e Q_InsertAudit = Some m"
  shows "audit_logs (snd (h e req w)) = audit_logs w"
  using assms
  by (auto simp: mutating_handlers_def create_plot_def plot_created_def update_plot_def
      plot_updated_def delete_plot_def plot_deleted_def create_deceased_def deceased_created_def
      update_deceased_def Let_def audit_logs_failed
      split: sum.splits list.splits
      dest!: insert_plot_Inr update_plots_Inr soft_delete_Inr insert_deceased_Inr
        update_deceased_rows_Inr)

text \<open>A request issues the audit INSERT at most once.\<close>

lemma handlers_audit_once:
  assumes "h \<in> set mutating_handlers"
  shows "count_list (issued (snd (h e req w))) Q_InsertAudit
           \<le> Suc (count_list (issued w) Q_InsertAudit)"
  using assms
  by (auto simp: mutating_handlers_def create_plot_def plot_created_def update_plot_def
      plot_updated_def delete_plot_def plot_deleted_def create_deceased_def deceased_created_def
      update_deceased_def Let_def
      split: sum.splits list.splits
      dest!: insert_plot_Inr update_plots_Inr soft_delete_Inr insert_deceased_Inr
        update_deceased_rows_Inr)

text \<open>
  C1. For each of the five mutating handlers, on every request and in every world, a
  failure thrown by the audit INSERT is swallowed: the response (status code and body) is
  the one the handler gives when the audit INSERT succeeds, every effect other than the
  audit entry is the same (the statements issued too, so nothing is retried), the audit
  table is left as it was, and the audit INSERT is issued at most once.
\<close>

theorem audit_failure_is_swallowed:
  assumes "h \<in> set mutating_handlers"
  shows "fst (h (audit_fault e (Some m)) req w) = fst (h (audit_fault e None) req w) \<and>
         no_audit (snd (h (audit_fault e (Some m)) req w))
           = no_audit (snd (h (audit_fault e None) req w)) \<and>
         audit_logs (snd (h (audit_fault e (Some m)) req w)) = audit_logs w \<and>
         count_list (issued (snd (h (audit_fault e (Some m)) req w))) Q_InsertAudit
           \<le> Suc (count_list (issued w) Q_InsertAudit)"
proof -
  have "fails (audit_fault e (Some m)) Q_InsertAudit = Some m"
    by simp
  then have "audit_logs (snd (h (audit_fault e (Some m)) req w)) = audit_logs w"
    using assms by (rule handlers_audit_failed [rotated])
  then show ?thesis
    using assms by (simp add: handlers_af handlers_audit_once)
qed

theorem audit_failure_is_swallowed_witness:
  "create_plot \<in> set mutating_handlers \<and>
   fst (create_plot (audit_fault env0 None) req_create world0) = Response 201 (PlotRow row_created) \<and>
   fst (create_plot (audit_fault env0 (Some ''connection terminated'')) req_create world0)
     = Response 201 (PlotRow row_created) \<and>
   audit_logs (snd (create_plot (audit_fault env0 (Some ''connection terminated'')) req_create
                      world0)) = [] \<and>
   count_list (issued (snd (create_plot (audit_fault env0 (Some ''connection terminated''))
                              req_create world0))) Q_InsertAudit = 1"
proof -
  have m: "create_plot \<in> set mutating_handlers"
    by (simp add: mutating_handlers_def)
  have ok: "fst (create_plot (audit_fault env0 None) req_create world0)
              = Response 201 (PlotRow row_created)"
    by code_simp
  have a: "audit_logs world0 = []"
    by code_simp
  have c: "count_list (issued (snd (create_plot (audit_fault env0 (Some ''connection terminated''))
                              req_create world0))) Q_InsertAudit = 1"
    by code_simp
  from audit_failure_is_swallowed [OF m, of env0 "''connection terminated''" req_create world0]
    m ok a c
  show ?thesis by simp
qed

section \<open>One audit entry for every successful mutation\<close>

lemma filter_Cons_mem: "filter P xs = x # ys \<Longrightarrow> x \<in> set xs \<and> P x"
proof -
  assume eq: "filter P xs = x # ys"
  have "x \<in> set (filter P xs)"
    unfolding eq by simp
  then show ?thesis by simp
qed

lemma create_plot_audited:
  assumes "fails e Q_InsertAudit = None" "succeeded (fst (create_plot e req w))"
  shows "\<exists>p. fst (create_plot e req w) = Response 201 (PlotRow p) \<and>
             p \<in> set (plots (snd (create_plot e req w))) \<and>
             audit_added w (snd (create_plot e req w)) ''CREATE_PLOT'' (p_id p)"
  using assms
  by (auto simp: create_plot_def plot_created_def Let_def succeeded_def status_code_def
      audit_added_def writeAuditSafe_def
      split: sum.splits if_splits dest!: insert_plot_Inr)

lemma update_plot_audited:
  assumes "fails e Q_InsertAudit = None" "succeeded (fst (update_plot e req w))"
  shows "\<exists>p. fst (update_plot e req w) = Response 200 (PlotRow p) \<and> p_id p = params_id req \<and>
             p \<in> set (plots (snd (update_plot e req w))) \<and>
             audit_added w (snd (update_plot e req w)) ''UPDATE_PLOT'' (p_id p)"
  using assms
  by (auto simp: update_plot_def plot_updated_def Let_def succeeded_def status_code_def
      audit_added_def writeAuditSafe_def
      split: sum.splits list.splits if_splits dest!: update_plots_Inr filter_Cons_mem)

lemma select_plot_Inr:
  assumes "select_plot e i w = Inr (r # rs)"
  shows "fst r \<in> set (plots w) \<and> p_id (fst r) = i \<and> deleted_at (fst r) = None"
proof -
  let ?rows = "concat (map (\<lambda>p. map (\<lambda>c. (p, c_name c))
                                  (filter (\<lambda>c. c_id c = cemetery_id p) (cemeteries w)))
                 (filter (\<lambda>p. p_id p = i \<and> deleted_at p = None) (plots w)))"
  from assms have eq: "?rows = r # rs"
    by (simp add: select_plot_def split: option.splits)
  have "r \<in> set ?rows"
    unfolding eq by simp
  then show ?thesis by auto
qed

lemma delete_plot_audited:
  assumes "fails e Q_InsertAudit = None" "succeeded (fst (delete_plot e req w))"
  shows "fst (delete_plot e req w) = Response 200 OkTrue \<and>
         (\<exists>p \<in> set (plots w). p_id p = params_id req) \<and>
         audit_added w (snd (delete_plot e req w)) ''DELETE_PLOT'' (params_id req)"
  using assms
  by (auto simp: delete_plot_def plot_deleted_def Let_def succeeded_def status_code_def
      audit_added_def writeAuditSafe_def
      split: sum.splits list.splits if_splits dest!: soft_delete_Inr select_plot_Inr)

lemma create_deceased_audited:
  assumes "fails e Q_InsertAudit = None" "succeeded (fst (create_deceased e req w))"
  shows "\<exists>d. fst (create_deceased e req w) = Response 201 (DeceasedRow d) \<and>
             d \<in> set (deceased_records (snd (create_deceased e req w))) \<and>
             audit_added w (snd (create_deceased e req w)) ''CREATE_DECEASED'' (d_id d)"
  using assms
  by (auto simp: create_deceased_def deceased_created_def Let_def succeeded_def status_code_def
      audit_added_def writeAuditSafe_def insert_deceased_def
      split: sum.splits if_splits option.splits)

lemma update_deceased_audited:
  assumes "fails e Q_InsertAudit = None" "succeeded (fst (update_deceased e req w))"
  shows "\<exists>d. fst (update_deceased e req w) = Response 200 (DeceasedRow d) \<and>
             d_id d = params_id req \<and>
             d \<in> set (deceased_records (snd (update_deceased e req w))) \<and>
             audit_added w (snd (update_deceased e req w)) ''UPDATE_DECEASED'' (d_id d)"
  using assms
  by (auto simp: update_deceased_def Let_def succeeded_def status_code_def
      audit_added_def writeAuditSafe_def
      split: sum.splits list.splits if_splits dest!: update_deceased_rows_Inr filter_Cons_mem)

text \<open>
  C2, as amended. When the audit INSERT does not fail, every successful create, update
  or soft delete of a plot and every successful create or update of a deceased record
  appends exactly one audit entry; its action tag is the operation's and its entity id
  is the id of the affected row. This holds in every environment, whether mail is
  configured or not. (When the audit INSERT fails the operation still succeeds and no
  entry is written.)
\<close>

theorem one_audit_entry_per_success:
  assumes "fails e Q_InsertAudit = None"
  shows "(succeeded (fst (create_plot e req w)) \<longrightarrow>
            (\<exists>p. fst (create_plot e req w) = Response 201 (PlotRow p) \<and>
                 p \<in> set (plots (snd (create_plot e req w))) \<and>
                 audit_added w (snd (create_plot e req w)) ''CREATE_PLOT'' (p_id p))) \<and>
         (succeeded (fst (update_plot e req w)) \<longrightarrow>
            (\<exists>p. fst (update_plot e req w) = Response 200 (PlotRow p) \<and>
                 p_id p = params_id req \<and>
                 p \<in> set (plots (snd (update_plot e req w))) \<and>
                 audit_added w (snd (update_plot e req w)) ''UPDATE_PLOT'' (p_id p))) \<and>
         (succeeded (fst (delete_plot e req w)) \<longrightarrow>
            fst (delete_plot e req w) = Response 200 OkTrue \<and>
            (\<exists>p \<in> set (plots w). p_id p = params_id req) \<and>
            audit_added w (snd (delete_plot e req w)) ''DELETE_PLOT'' (params_id req)) \<and>
         (succeeded (fst (create_deceased e req w)) \<longrightarrow>
            (\<exists>d. fst (create_deceased e req w) = Response 201 (DeceasedRow d) \<and>
                 d \<in> set (deceased_records (snd (create_deceased e req w))) \<and>
                 audit_added w (snd (create_deceased e req w)) ''CREATE_DECEASED'' (d_id d))) \<and>
         (succeeded (fst (update_deceased e req w)) \<longrightarrow>
            (\<exists>d. fst (update_deceased e req w) = Response 200 (DeceasedRow d) \<and>
                 d_id d = params_id req \<and>
                 d \<in> set (deceased_records (snd (update_deceased e req w))) \<and>
                 audit_added w (snd (update_deceased e req w)) ''UPDATE_DECEASED'' (d_id d)))"
  using create_plot_audited [OF assms] update_plot_audited [OF assms]
    delete_plot_audited [OF assms] create_deceased_audited [OF assms]
    update_deceased_audited [OF assms]
  by blast

theorem one_audit_entry_per_success_witness:
  "fails env0 Q_InsertAudit = None \<and> \<not> emailEnabled env0 \<and>
   succeeded (fst (create_plot env0 req_create world0)) \<and>
   audit_added world0 (snd (create_plot env0 req_create world0)) ''CREATE_PLOT'' 1 \<and>
   succeeded (fst (update_plot env0 (req_of 1 [(''status'', JStr ''Reserved'')]) world1)) \<and>
   audit_added world1 (snd (update_plot env0 (req_of 1 [(''status'', JStr ''Reserved'')]) world1))
     ''UPDATE_PLOT'' 1 \<and>
   succeeded (fst (delete_plot env0 (req_of 1 []) world1)) \<and>
   audit_added world1 (snd (delete_plot env0 (req_of 1 []) world1)) ''DELETE_PLOT'' 1 \<and>
   succeeded (fst (create_deceased env0 (req_of 1 [(''deceased_full_name'', JStr ''John Doe'')])
                     world1)) \<and>
   audit_added world1
     (snd (create_deceased env0 (req_of 1 [(''deceased_full_name'', JStr ''John Doe'')]) world1))
     ''CREATE_DECEASED'' 2 \<and>
   succeeded (fst (update_deceased env0 (req_of 1 [(''notes'', JStr ''east gate'')]) world1)) \<and>
   audit_added world1 (snd (update_deceased env0 (req_of 1 [(''notes'', JStr ''east gate'')]) world1))
     ''UPDATE_DECEASED'' 1"
proof -
  have f: "fails env0 Q_InsertAudit = None" and m: "\<not> emailEnabled env0"
    by code_simp+
  note T = one_audit_entry_per_success [OF f]
  have s1: "succeeded (fst (create_plot env0 req_create world0))"
    by code_simp
  have "p_id p = 1" if "fst (create_plot env0 req_create world0) = Response 201 (PlotRow p)" for p
  proof -
    have "fst (create_plot env0 req_create world0) = Response 201 (PlotRow row_created)"
      by code_simp
    with that have "p = row_created" by simp
    then show ?thesis by (simp add: row_created_def plot_row_def)
  qed
  with T [of req_create world0] s1
  have a1: "audit_added world0 (snd (create_plot env0 req_create world0)) ''CREATE_PLOT'' 1"
    by auto
  have i: "params_id (req_of 1 b) = 1" for b
    by (simp add: req_of_def)
  have s2: "succeeded (fst (update_plot env0 (req_of 1 [(''status'', JStr ''Reserved'')]) world1))"
    by code_simp
  with T [of "req_of 1 [(''status'', JStr ''Reserved'')]" world1] i
  have a2: "audit_added world1
      (snd (update_plot env0 (req_of 1 [(''status'', JStr ''Reserved'')]) world1)) ''UPDATE_PLOT'' 1"
    by auto
  have s3: "succeeded (fst (delete_plot env0 (req_of 1 []) world1))"
    by code_simp
  with T [of "req_of 1 []" world1] i
  have a3: "audit_added world1 (snd (delete_plot env0 (req_of 1 []) world1)) ''DELETE_PLOT'' 1"
    by auto
  have s4: "succeeded (fst (create_deceased env0
      (req_of 1 [(''deceased_full_name'', JStr ''John Doe'')]) world1))"
    by code_simp
  have "d_id d = 2"
    if "fst (create_deceased env0 (req_of 1 [(''deceased_full_name'', JStr ''John Doe'')]) world1)
          = Response 201 (DeceasedRow d)" for d
  proof -
    have "case fst (create_deceased env0
        (req_of 1 [(''deceased_full_name'', JStr ''John Doe'')]) world1) of
          Response c (DeceasedRow r) \<Rightarrow> d_id r = 2 | _ \<Rightarrow> False"
      by code_simp
    with that show ?thesis by simp
  qed
  with T [of "req_of 1 [(''deceased_full_name'', JStr ''John Doe'')]" world1] s4
  have a4: "audit_added world1
      (snd (create_deceased env0 (req_of 1 [(''deceased_full_name'', JStr ''John Doe'')]) world1))
      ''CREATE_DECEASED'' 2"
    by auto
  have s5: "succeeded (fst (update_deceased env0 (req_of 1 [(''notes'', JStr ''east gate'')]) world1))"
    by code_simp
  with T [of "req_of 1 [(''notes'', JStr ''east gate'')]" world1] i
  have a5: "audit_added world1
      (snd (update_deceased env0 (req_of 1 [(''notes'', JStr ''east gate'')]) world1))
      ''UPDATE_DECEASED'' 1"
    by auto
  from f m s1 a1 s2 a2 s3 a3 s4 a4 s5 a5 show ?thesis by simp
qed

text \<open>
  The claim as stated fails when the audit INSERT throws: the plot is created and the
  request answered with 201, and no audit entry is written.
\<close>

theorem audit_entry_lost_counterexample:
  "succeeded (fst (create_plot (audit_fault env0 (Some ''connection terminated'')) req_create
                     world0)) \<and>
   map p_id (plots (snd (create_plot (audit_fault env0 (Some ''connection terminated''))
                           req_create world0))) = [1] \<and>
   audit_logs (snd (create_plot (audit_fault env0 (Some ''connection terminated'')) req_create
                      world0)) = audit_logs world0 \<and>
   \<not> audit_added world0
       (snd (create_plot (audit_fault env0 (Some ''connection terminated'')) req_create world0))
       ''CREATE_PLOT'' 1"
proof -
  have 1: "succeeded (fst (create_plot (audit_fault env0 (Some ''connection terminated''))
                             req_create world0))"
    by code_simp
  have 2: "map p_id (plots (snd (create_plot (audit_fault env0 (Some ''connection terminated''))
                           req_create world0))) = [1]"
    by code_simp
  have 3: "audit_logs (snd (create_plot (audit_fault env0 (Some ''connection terminated''))
                              req_create world0)) = audit_logs world0"
    by code_simp
  from 3 have 4: "\<not> audit_added world0
       (snd (create_plot (audit_fault env0 (Some ''connection terminated'')) req_create world0))
       ''CREATE_PLOT'' 1"
    by (simp add: audit_added_def)
  from 1 2 3 4 show ?thesis by simp
qed

section \<open>Creating a plot\<close>



lemma trim_blank: "list_all is_ws s \<Longrightarrow> trim s = []"
proof -
  assume "list_all is_ws s"
  then have d: "dropWhile is_ws s = []"
    by (induction s) simp_all
  show ?thesis
    unfolding trim_def d by simp
qed

lemma create_plot_invalid:
  "\<not> truthy (field (body req) ''cemetery_id'') \<or> \<not> truthy (field (body req) ''plot_code'') \<Longrightarrow>
     create_plot e req w = (Response 400 (Err ''cemetery_id and plot_code are required''), w)"
  by (simp add: create_plot_def)

lemma create_plot_201:
  assumes "fst (create_plot e req w) = Response 201 (PlotRow p)"
  shows "truthy (field (body req) ''cemetery_id'') \<and> truthy (field (body req) ''plot_code'') \<and>
         (\<exists>c. key_of (field (body req) ''cemetery_id'') = Some c \<and>
              live_in c w < PLOTS_PER_CEMETERY_LIMIT e \<and>
              p = new_plot e c (body req) (issue Q_InsertPlot (issue Q_CountPlots w))) \<and>
         plots (snd (create_plot e req w)) = plots w @ [p]"
  using assms
  by (auto simp: create_plot_def plot_created_def count_plots_def live_in_def Let_def
      split: sum.splits if_splits option.splits dest!: insert_plot_Inr)

lemma create_plot_accepts:
  assumes "truthy (field (body req) ''cemetery_id'')" "truthy (field (body req) ''plot_code'')"
    and "key_of (field (body req) ''cemetery_id'') = Some c"
    and "live_in c w < PLOTS_PER_CEMETERY_LIMIT e"
    and "fails e Q_CountPlots = None" "fails e Q_InsertPlot = None" "fails e Q_CemeteryName = None"
  shows "fst (create_plot e req w)
           = Response 201 (PlotRow (new_plot e c (body req) (issue Q_InsertPlot (issue Q_CountPlots w))))"
  using assms
  by (simp add: create_plot_def plot_created_def count_plots_def insert_plot_def getCemeteryName_def
      live_in_def Let_def split: list.splits)

text \<open>
  C8. What \<^verbatim>\<open>POST /api/plots\<close> does with \<^verbatim>\<open>cemetery_id\<close> and \<^verbatim>\<open>plot_code\<close>. A
  request whose cemetery id or plot code is missing, null or empty is answered 400 with
  the validation message and the world is untouched. A request answered 201 had both,
  and the stored plot code is the trimmed text and the stored status the supplied one,
  \<^verbatim>\<open>Available\<close> when it is omitted. But the check is made before trimming: a plot code
  that is not empty and consists only of white space passes it, and when no statement
  fails and the cemetery is under its limit the row is stored with the empty plot code
  and the request answered 201, where the claim has it rejected.
\<close>

theorem create_plot_validation:
  "(\<not> truthy (field (body req) ''cemetery_id'') \<or> \<not> truthy (field (body req) ''plot_code'') \<longrightarrow>
      create_plot e req w = (Response 400 (Err ''cemetery_id and plot_code are required''), w)) \<and>
   (fst (create_plot e req w) = Response 201 (PlotRow p) \<longrightarrow>
      truthy (field (body req) ''cemetery_id'') \<and> truthy (field (body req) ''plot_code'') \<and>
      plot_code p = trim (js_String (num_text e) (field (body req) ''plot_code'')) \<and>
      status p = (if truthy (field (body req) ''status'') then field (body req) ''status''
                  else JStr ''Available'') \<and>
      plots (snd (create_plot e req w)) = plots w @ [p]) \<and>
   (field (body req) ''plot_code'' = JStr s \<and> s \<noteq> [] \<and> list_all is_ws s \<and>
    truthy (field (body req) ''cemetery_id'') \<and>
    key_of (field (body req) ''cemetery_id'') = Some c \<and>
    live_in c w < PLOTS_PER_CEMETERY_LIMIT e \<and>
    fails e Q_CountPlots = None \<and> fails e Q_InsertPlot = None \<and> fails e Q_CemeteryName = None \<longrightarrow>
      (\<exists>q. fst (create_plot e req w) = Response 201 (PlotRow q) \<and> plot_code q = [] \<and>
           plots (snd (create_plot e req w)) = plots w @ [q]))"
proof (intro conjI impI)
  assume "\<not> truthy (field (body req) ''cemetery_id'') \<or> \<not> truthy (field (body req) ''plot_code'')"
  then show "create_plot e req w = (Response 400 (Err ''cemetery_id and plot_code are required''), w)"
    by (rule create_plot_invalid)
next
  assume ok: "fst (create_plot e req w) = Response 201 (PlotRow p)"
  from create_plot_201 [OF ok]
  show "truthy (field (body req) ''cemetery_id'')" "truthy (field (body req) ''plot_code'')"
    "plots (snd (create_plot e req w)) = plots w @ [p]"
    by simp_all
  from create_plot_201 [OF ok]
  show "plot_code p = trim (js_String (num_text e) (field (body req) ''plot_code''))"
    by (auto simp: new_plot_def)
  from create_plot_201 [OF ok]
  show "status p = (if truthy (field (body req) ''status'') then field (body req) ''status''
                    else JStr ''Available'')"
    by (auto simp: new_plot_def js_or_def)
next
  assume a: "field (body req) ''plot_code'' = JStr s \<and> s \<noteq> [] \<and> list_all is_ws s \<and>
    truthy (field (body req) ''cemetery_id'') \<and>
    key_of (field (body req) ''cemetery_id'') = Some c \<and>
    live_in c w < PLOTS_PER_CEMETERY_LIMIT e \<and>
    fails e Q_CountPlots = None \<and> fails e Q_InsertPlot = None \<and> fails e Q_CemeteryName = None"
  let ?q = "new_plot e c (body req) (issue Q_InsertPlot (issue Q_CountPlots w))"
  from a have t: "truthy (field (body req) ''plot_code'')"
    by simp
  from a t have r: "fst (create_plot e req w) = Response 201 (PlotRow ?q)"
    by (intro create_plot_accepts) simp_all
  from a have "plot_code ?q = []"
    by (simp add: new_plot_def trim_blank)
  with r create_plot_201 [OF r]
  show "\<exists>q. fst (create_plot e req w) = Response 201 (PlotRow q) \<and> plot_code q = [] \<and>
           plots (snd (create_plot e req w)) = plots w @ [q]"
    by blast
qed

theorem create_plot_validation_witness:
  "field (body req_blank_code) ''plot_code'' = JStr ''   '' \<and>
   fst (create_plot env0 req_blank_code world0)
     = Response 201 (PlotRow ((plot_row 1 [] None)\<lparr>created_at := 100, updated_at := 100\<rparr>)) \<and>
   map plot_code (plots (snd (create_plot env0 req_blank_code world0))) = [[]] \<and>
   create_plot env0 (req_of 0 [(''cemetery_id'', JNum 1), (''plot_code'', JStr [])]) world0
     = (Response 400 (Err ''cemetery_id and plot_code are required''), world0)"
proof -
  have r: "fst (create_plot env0 req_blank_code world0)
     = Response 201 (PlotRow ((plot_row 1 [] None)\<lparr>created_at := 100, updated_at := 100\<rparr>))"
    by code_simp
  have f: "field (body req_blank_code) ''plot_code'' = JStr ''   ''"
    by code_simp
  have t: "\<not> truthy (field (body (req_of 0 [(''cemetery_id'', JNum 1), (''plot_code'', JStr [])]))
                       ''plot_code'')"
    by code_simp
  have w: "plots world0 = []"
    by code_simp
  have c: "plot_code ((plot_row 1 [] None)\<lparr>created_at := 100, updated_at := 100\<rparr>) = []"
    by code_simp
  from create_plot_validation [of req_blank_code env0 world0
      "(plot_row 1 [] None)\<lparr>created_at := 100, updated_at := 100\<rparr>"] r w c
  have "map plot_code (plots (snd (create_plot env0 req_blank_code world0))) = [[]]"
    by simp
  moreover from create_plot_validation
      [of "req_of 0 [(''cemetery_id'', JNum 1), (''plot_code'', JStr [])]" env0 world0] t
  have "create_plot env0 (req_of 0 [(''cemetery_id'', JNum 1), (''plot_code'', JStr [])]) world0
     = (Response 400 (Err ''cemetery_id and plot_code are required''), world0)"
    by blast
  ultimately show ?thesis using r f by simp
qed

section \<open>Creating a deceased record\<close>









text \<open>
  A burial type that is truthy and not a string has no \<^verbatim>\<open>toUpperCase\<close>: the handler
  answers 500 and inserts nothing.
\<close>

lemma create_deceased_not_a_string:
  assumes "truthy (field (body req) ''deceased_full_name'')"
    and "2 \<le> length (trim (js_String (num_text e) (field (body req) ''deceased_full_name'')))"
    and "truthy (field (body req) ''burial_type'')"
    and "\<forall>s. field (body req) ''burial_type'' \<noteq> JStr s"
  shows "create_deceased e req w = (Response 500 (Err not_a_function), w)"
  using assms
  by (cases "field (body req) ''burial_type''")
     (auto simp: create_deceased_def burial_type_param_def js_or_def)

section \<open>Updating a deceased record\<close>















section \<open>Plot ids stay unique\<close>

lemma plot_ids_create:
  "(map p_id (plots (snd (create_plot e req w))) = map p_id (plots w) \<and>
    plots_seq (snd (create_plot e req w)) = plots_seq w) \<or>
   (map p_id (plots (snd (create_plot e req w))) = map p_id (plots w) @ [plots_seq w] \<and>
    plots_seq (snd (create_plot e req w)) = plots_seq w + 1)"
  by (auto simp: create_plot_def plot_created_def new_plot_def Let_def
      split: sum.splits dest!: insert_plot_Inr)

lemma plot_ids_update:
  "map p_id (plots (snd (update_plot e req w))) = map p_id (plots w) \<and>
   plots_seq (snd (update_plot e req w)) = plots_seq w"
  by (auto simp: update_plot_def plot_updated_def set_plot_def Let_def o_def
      split: sum.splits list.splits dest!: update_plots_Inr cong: if_cong)

lemma plot_ids_delete:
  "map p_id (plots (snd (delete_plot e req w))) = map p_id (plots w) \<and>
   plots_seq (snd (delete_plot e req w)) = plots_seq w"
  by (auto simp: delete_plot_def plot_deleted_def Let_def o_def
      split: sum.splits list.splits dest!: soft_delete_Inr cong: if_cong)

lemma plot_ids_create_deceased:
  "plots (snd (create_deceased e req w)) = plots w \<and>
   plots_seq (snd (create_deceased e req w)) = plots_seq w"
  by (auto simp: create_deceased_def deceased_created_def Let_def
      split: sum.splits dest!: insert_deceased_Inr)

lemma plot_ids_update_deceased:
  "plots (snd (update_deceased e req w)) = plots w \<and>
   plots_seq (snd (update_deceased e req w)) = plots_seq w"
  by (auto simp: update_deceased_def Let_def
      split: sum.splits list.splits dest!: update_deceased_rows_Inr)

lemma keys_fresh_ids:
  "keys_fresh w = (distinct (map p_id (plots w)) \<and> (\<forall>i \<in> set (map p_id (plots w)). i < plots_seq w))"
  by (simp add: keys_fresh_def)

text \<open>
  The key discipline holds in the empty database and every mutating handler keeps it:
  plot ids are unique in every world the handlers reach from there.
\<close>

lemma keys_fresh_kept:
  assumes "h \<in> set mutating_handlers" "keys_fresh w"
  shows "keys_fresh (snd (h e req w))"
proof -
  have keep: "keys_fresh w'"
    if "map p_id (plots w') = map p_id (plots w)" "plots_seq w' = plots_seq w" for w'
    using that assms(2) by (simp add: keys_fresh_ids)
  have grow: "keys_fresh w'"
    if "map p_id (plots w') = map p_id (plots w) @ [plots_seq w]" "plots_seq w' = plots_seq w + 1"
    for w'
    using that assms(2) by (fastforce simp: keys_fresh_ids)
  from assms(1) consider "h = create_plot" | "h = update_plot" | "h = delete_plot"
    | "h = create_deceased" | "h = update_deceased"
    by (auto simp: mutating_handlers_def)
  then show ?thesis
  proof cases
    case 1
    with plot_ids_create [of e req w] keep grow show ?thesis by blast
  next
    case 2
    with plot_ids_update [of e req w] keep show ?thesis by blast
  next
    case 3
    with plot_ids_delete [of e req w] keep show ?thesis by blast
  next
    case 4
    with plot_ids_create_deceased [of e req w] keep show ?thesis by simp
  next
    case 5
    with plot_ids_update_deceased [of e req w] keep show ?thesis by simp
  qed
qed

lemma keys_fresh_world0: "keys_fresh world0"
  by (simp add: keys_fresh_def world0_def)

section \<open>Updating a plot\<close>

lemma set_plot_id [simp]:
  "p_id (set_plot e b p) = p_id p"
  "cemetery_id (set_plot e b p) = cemetery_id p"
  "plot_code (set_plot e b p) = plot_code p"
  "deleted_at (set_plot e b p) = deleted_at p"
  "created_at (set_plot e b p) = created_at p"
  "updated_at (set_plot e b p) = now e"
  by (simp_all add: set_plot_def)

lemma map_unmatched:
  "\<forall>p \<in> set ps. p_id p \<noteq> i \<Longrightarrow> map (\<lambda>p. if p_id p = i then f p else p) ps = ps"
  by (induction ps) auto



















section \<open>Soft delete and the listing\<close>












text \<open>What the UPDATE of the soft delete does to one row.\<close>

lemma mark_fields:
  "p_id (if p_id p = i then p\<lparr>deleted_at := Some t, updated_at := t\<rparr> else p) = p_id p"
  "cemetery_id (if p_id p = i then p\<lparr>deleted_at := Some t, updated_at := t\<rparr> else p)
     = cemetery_id p"
  "p_id p = i \<Longrightarrow>
     deleted_at (if p_id p = i then p\<lparr>deleted_at := Some t, updated_at := t\<rparr> else p) = Some t"
  by simp_all




end
